theory Spec2Isabelle
  imports Complex_Main
begin

section \<open>Numbers of the script\<close>

text \<open>
  The script computes with JavaScript numbers. Finite numbers are modelled as reals
  (no rounding, no overflow of a finite product). The two divisions of the pinch
  branch of \<open>handleTouchMove\<close> are the only places where a non-finite number can
  arise from finite ones, so their results are values of \<open>jsnum\<close>, with the
  arithmetic of Infinity and NaN written out. Signed zeros are not distinguished.
\<close>

datatype jsnum = Finite real | PosInfinity | NegInfinity | NaN

definition signed_infinity :: "real \<Rightarrow> jsnum" where
  "signed_infinity r = (if 0 < r then PosInfinity else if r < 0 then NegInfinity else NaN)"

text \<open>\<open>a / b\<close> on finite operands: a zero divisor gives an infinity, or NaN for \<open>0 / 0\<close>.\<close>

definition js_div :: "real \<Rightarrow> real \<Rightarrow> jsnum" where
  "js_div a b = (if b = 0 then signed_infinity a else Finite (a / b))"

fun js_mul :: "jsnum \<Rightarrow> jsnum \<Rightarrow> jsnum" where
  "js_mul NaN _ = NaN"
| "js_mul _ NaN = NaN"
| "js_mul (Finite a) (Finite b) = Finite (a * b)"
| "js_mul (Finite a) PosInfinity = signed_infinity a"
| "js_mul (Finite a) NegInfinity = signed_infinity (- a)"
| "js_mul PosInfinity (Finite b) = signed_infinity b"
| "js_mul NegInfinity (Finite b) = signed_infinity (- b)"
| "js_mul PosInfinity PosInfinity = PosInfinity"
| "js_mul NegInfinity NegInfinity = PosInfinity"
| "js_mul PosInfinity NegInfinity = NegInfinity"
| "js_mul NegInfinity PosInfinity = NegInfinity"

fun js_sub :: "jsnum \<Rightarrow> jsnum \<Rightarrow> jsnum" where
  "js_sub NaN _ = NaN"
| "js_sub _ NaN = NaN"
| "js_sub (Finite a) (Finite b) = Finite (a - b)"
| "js_sub (Finite a) PosInfinity = NegInfinity"
| "js_sub (Finite a) NegInfinity = PosInfinity"
| "js_sub PosInfinity (Finite b) = PosInfinity"
| "js_sub NegInfinity (Finite b) = NegInfinity"
| "js_sub PosInfinity PosInfinity = NaN"
| "js_sub NegInfinity NegInfinity = NaN"
| "js_sub PosInfinity NegInfinity = PosInfinity"
| "js_sub NegInfinity PosInfinity = NegInfinity"

text \<open>\<open>Math.min(c, v)\<close> and \<open>Math.max(c, v)\<close> for a finite constant \<open>c\<close>.\<close>

fun js_min :: "real \<Rightarrow> jsnum \<Rightarrow> jsnum" where
  "js_min c (Finite v) = Finite (min c v)"
| "js_min c PosInfinity = Finite c"
| "js_min c NegInfinity = NegInfinity"
| "js_min c NaN = NaN"

fun js_max :: "real \<Rightarrow> jsnum \<Rightarrow> jsnum" where
  "js_max c (Finite v) = Finite (max c v)"
| "js_max c PosInfinity = PosInfinity"
| "js_max c NegInfinity = Finite c"
| "js_max c NaN = NaN"

text \<open>\<open>Math.hypot(a, b)\<close>, and \<open>v || 1\<close> on a number: zero is falsy.\<close>

definition hypot :: "real \<Rightarrow> real \<Rightarrow> real" where
  "hypot a b = sqrt (a * a + b * b)"

definition or_one :: "real \<Rightarrow> real" where
  "or_one v = (if v = 0 then 1 else v)"

section \<open>State\<close>

text \<open>
  The objects \<open>appState\<close>, \<open>overlayState\<close>, \<open>filterState\<close> and \<open>fxState\<close> of the
  script, and its module-level variables. The fields \<open>x\<close> and \<open>y\<close> of
  \<open>overlayState\<close> are named \<open>overlayX\<close> and \<open>overlayY\<close> here.
\<close>

record app_state =
  hasImage :: bool
  cameraActive :: bool
  uiHidden :: bool

record overlay_state =
  scale :: real
  overlayX :: real
  overlayY :: real
  rotation :: real
  locked :: bool

record filter_state =
  brightness :: real
  contrast :: real
  opacity :: real

record fx_state =
  grayscale :: bool
  invert :: bool

text \<open>
  A decoded image: its natural size and where its pixels come from, the uploaded file
  or the JPEG data URL of an offscreen canvas of the given size onto which another
  image was drawn.
\<close>

datatype pixels = FileData string | CanvasJpeg pixels nat nat

record image =
  src :: pixels
  naturalWidth :: nat
  naturalHeight :: nat

text \<open>What the script reads from \<open>window\<close> when it sizes the canvas.\<close>

record window =
  innerWidth :: real
  innerHeight :: real
  devicePixelRatio :: real

record touch =
  clientX :: real
  clientY :: real

record globals =
  appState :: app_state
  overlayState :: overlay_state
  filterState :: filter_state
  fxState :: fx_state
  dpr :: real
  viewportWidth :: real
  viewportHeight :: real
  overlayImage :: "image option"
  overlayReady :: bool
  lastTapTime :: int
  lastTapX :: real
  lastTapY :: real
  panStartX :: real
  panStartY :: real
  overlayStartX :: real
  overlayStartY :: real
  pinchStartDistance :: real
  pinchStartScale :: real
  pinchStartCenterX :: real
  pinchStartCenterY :: real
  overlayStartXForPinch :: real
  overlayStartYForPinch :: real

text \<open>
  The values the declarations of the script give, before \<open>load\<close> runs; \<open>dpr\<close> is
  read from the window, \<open>window.devicePixelRatio || 1\<close>.
\<close>

definition initial :: "window \<Rightarrow> globals" where
  "initial w =
     \<lparr> appState = \<lparr> hasImage = False, cameraActive = False, uiHidden = False \<rparr>,
       overlayState = \<lparr> scale = 1, overlayX = 0, overlayY = 0, rotation = 0, locked = False \<rparr>,
       filterState = \<lparr> brightness = 1, contrast = 1, opacity = 7 / 10 \<rparr>,
       fxState = \<lparr> grayscale = False, invert = False \<rparr>,
       dpr = (if devicePixelRatio w = 0 then 1 else devicePixelRatio w),
       viewportWidth = 0, viewportHeight = 0,
       overlayImage = None, overlayReady = False,
       lastTapTime = 0, lastTapX = 0, lastTapY = 0,
       panStartX = 0, panStartY = 0, overlayStartX = 0, overlayStartY = 0,
       pinchStartDistance = 0, pinchStartScale = 1,
       pinchStartCenterX = 0, pinchStartCenterY = 0,
       overlayStartXForPinch = 0, overlayStartYForPinch = 0 \<rparr>"

section \<open>Canvas sizing\<close>

definition updateViewportSize :: "window \<Rightarrow> globals \<Rightarrow> globals" where
  "updateViewportSize w s =
     s\<lparr> viewportWidth := innerWidth w,
        viewportHeight := innerHeight w,
        dpr := (if devicePixelRatio w = 0 then 1 else devicePixelRatio w) \<rparr>"

text \<open>The size and transform of the canvas element are not part of the state.\<close>

definition resizeCanvas :: "window \<Rightarrow> globals \<Rightarrow> globals" where
  "resizeCanvas w s = updateViewportSize w s"

section \<open>Application states\<close>

definition resetOverlayTransform :: "globals \<Rightarrow> globals" where
  "resetOverlayTransform s =
     s\<lparr> overlayState := (overlayState s)
          \<lparr> scale := 1, overlayX := viewportWidth s / 2, overlayY := viewportHeight s / 2 \<rparr> \<rparr>"

definition resetFilters :: "globals \<Rightarrow> globals" where
  "resetFilters s =
     s\<lparr> filterState := (filterState s)\<lparr> brightness := 1, contrast := 1, opacity := 7 / 10 \<rparr>,
        fxState := (fxState s)\<lparr> grayscale := False, invert := False \<rparr> \<rparr>"

definition stopCamera :: "globals \<Rightarrow> globals" where
  "stopCamera s = s\<lparr> appState := (appState s)\<lparr> cameraActive := False \<rparr> \<rparr>"

definition enterLandingMode :: "globals \<Rightarrow> globals" where
  "enterLandingMode s =
     (let s1 = stopCamera s;
          s2 = s1\<lparr> overlayImage := None, overlayReady := False \<rparr>;
          s3 = s2\<lparr> appState := (appState s2)\<lparr> hasImage := False, uiHidden := False \<rparr> \<rparr>;
          s4 = s3\<lparr> overlayState := (overlayState s3)\<lparr> locked := False \<rparr> \<rparr>
      in resetFilters (resetOverlayTransform s4))"

definition toggleLock :: "globals \<Rightarrow> globals" where
  "toggleLock s =
     s\<lparr> overlayState := (overlayState s)\<lparr> locked := \<not> locked (overlayState s) \<rparr> \<rparr>"

definition setUiHidden :: "bool \<Rightarrow> globals \<Rightarrow> globals" where
  "setUiHidden hidden s = s\<lparr> appState := (appState s)\<lparr> uiHidden := hidden \<rparr> \<rparr>"

text \<open>
  \<open>startCamera\<close>; \<open>granted\<close> says whether the browser has \<open>getUserMedia\<close> and the
  stream was obtained and played.
\<close>

definition startCamera :: "bool \<Rightarrow> window \<Rightarrow> globals \<Rightarrow> globals" where
  "startCamera granted w s =
     (if \<not> hasImage (appState s) then s
      else if cameraActive (appState s) then s
      else if \<not> granted then s
      else resizeCanvas w (s\<lparr> appState := (appState s)\<lparr> cameraActive := True \<rparr> \<rparr>))"

section \<open>Image loading and downscaling\<close>

text \<open>\<open>Math.round\<close> rounds to the nearest integer, halves upwards.\<close>

definition math_round :: "real \<Rightarrow> int" where
  "math_round v = \<lfloor>v + 1 / 2\<rfloor>"

definition createDownscaledImageIfNeeded :: "image \<Rightarrow> image" where
  "createDownscaledImageIfNeeded img =
     (let maxDim = 4096;
          w = naturalWidth img;
          h = naturalHeight img;
          largest = max w h
      in if largest \<le> maxDim then img
         else
           let factor = real maxDim / real largest;
               targetW = nat (math_round (real w * factor));
               targetH = nat (math_round (real h * factor))
           in \<lparr> src = CanvasJpeg (src img) targetW targetH,
                naturalWidth = targetW, naturalHeight = targetH \<rparr>)"

text \<open>
  Whether the image made from the offscreen canvas ever loads. The data URL of a canvas
  with an edge of zero is \<open>data:,\<close>, which holds no image: the \<open>load\<close> event of an
  image with that source never fires. A canvas with both edges positive gives a JPEG
  that loads.
\<close>

definition dataUrlLoads :: "image \<Rightarrow> bool" where
  "dataUrlLoads im = (0 < naturalWidth im \<and> 0 < naturalHeight im)"

text \<open>
  The statements \<open>handleImageFile\<close> runs once the image to show has loaded; the script
  has them twice, in the \<open>onload\<close> listener of the downscaled image and after it.
\<close>

definition exposeImage :: "window \<Rightarrow> image \<Rightarrow> globals \<Rightarrow> globals" where
  "exposeImage w finalImg s =
     (let s1 = s\<lparr> overlayImage := Some finalImg, overlayReady := True \<rparr>;
          s2 = s1\<lparr> appState := (appState s1)\<lparr> hasImage := True \<rparr> \<rparr>
      in resetFilters (resetOverlayTransform (resizeCanvas w s2)))"

text \<open>
  \<open>handleImageFile\<close>, from the moment the uploaded file has been decoded into \<open>img\<close>.
  A downscaled image is a new object and is not complete when its source has just been
  set, so the script leaves the statements to its \<open>onload\<close> listener and returns: they
  run if and when the downscaled image loads, and never otherwise (the script has no
  \<open>onerror\<close> listener). The events that may come between the return and the load are
  not modelled.
\<close>

definition handleImageFile :: "window \<Rightarrow> image \<Rightarrow> globals \<Rightarrow> globals" where
  "handleImageFile w img s =
     (if max (naturalWidth img) (naturalHeight img) > 4096
      then
        let finalImg = createDownscaledImageIfNeeded img
        in if finalImg \<noteq> img \<and> \<not> dataUrlLoads finalImg then s
           else exposeImage w finalImg s
      else exposeImage w img s)"

text \<open>Whether the image \<open>handleImageFile\<close> means to show for \<open>img\<close> ever loads.\<close>

definition finalImageLoads :: "image \<Rightarrow> bool" where
  "finalImageLoads img =
     (if max (naturalWidth img) (naturalHeight img) > 4096
      then dataUrlLoads (createDownscaledImageIfNeeded img) else True)"

section \<open>Touch gestures\<close>

datatype fault = NonFinite

definition handleTouchStart :: "touch list \<Rightarrow> int \<Rightarrow> globals \<Rightarrow> globals" where
  "handleTouchStart touches now s =
     (if \<not> overlayReady s then s
      else if uiHidden (appState s) then setUiHidden False s
      else case touches of
        [t] \<Rightarrow>
          let x = clientX t;
              y = clientY t;
              dt = now - lastTapTime s;
              dx = x - lastTapX s;
              dy = y - lastTapY s;
              dist2 = dx * dx + dy * dy;
              s1 = (if dt < 300 \<and> dist2 < 30 * 30
                    then (resetOverlayTransform s)\<lparr> lastTapTime := 0 \<rparr>
                    else s\<lparr> lastTapTime := now, lastTapX := x, lastTapY := y \<rparr>)
          in if locked (overlayState s1) then s1
             else s1\<lparr> panStartX := x, panStartY := y,
                      overlayStartX := overlayX (overlayState s1),
                      overlayStartY := overlayY (overlayState s1) \<rparr>
      | [t0, t1] \<Rightarrow>
          if locked (overlayState s) then s
          else
            let dx = clientX t1 - clientX t0;
                dy = clientY t1 - clientY t0
            in s\<lparr> pinchStartDistance := or_one (hypot dx dy),
                  pinchStartScale := scale (overlayState s),
                  pinchStartCenterX := (clientX t0 + clientX t1) / 2,
                  pinchStartCenterY := (clientY t0 + clientY t1) / 2,
                  overlayStartXForPinch := overlayX (overlayState s),
                  overlayStartYForPinch := overlayY (overlayState s) \<rparr>
      | _ \<Rightarrow> s)"

text \<open>
  \<open>handleTouchMove\<close>. The overlay fields hold reals, so a move whose new scale or
  position is an infinity or NaN has no successor state here: it is \<open>Inl NonFinite\<close>.
\<close>

definition handleTouchMove :: "touch list \<Rightarrow> globals \<Rightarrow> fault + globals" where
  "handleTouchMove touches s =
     (if \<not> overlayReady s \<or> locked (overlayState s) then Inr s
      else case touches of
        [t] \<Rightarrow>
          let x = clientX t;
              y = clientY t;
              dx = x - panStartX s;
              dy = y - panStartY s
          in Inr (s\<lparr> overlayState := (overlayState s)
                     \<lparr> overlayX := overlayStartX s + dx, overlayY := overlayStartY s + dy \<rparr> \<rparr>)
      | [t0, t1] \<Rightarrow>
          let dx = clientX t1 - clientX t0;
              dy = clientY t1 - clientY t0;
              dist = or_one (hypot dx dy);
              newScale = js_max (1 / 10) (js_min 8
                (js_mul (js_div dist (pinchStartDistance s)) (Finite (pinchStartScale s))));
              centerX = (clientX t0 + clientX t1) / 2;
              centerY = (clientY t0 + clientY t1) / 2;
              worldX = js_div (centerX - overlayStartXForPinch s) (pinchStartScale s);
              worldY = js_div (centerY - overlayStartYForPinch s) (pinchStartScale s);
              newX = js_sub (Finite centerX) (js_mul worldX newScale);
              newY = js_sub (Finite centerY) (js_mul worldY newScale)
          in (case (newScale, newX, newY) of
                (Finite sc, Finite nx, Finite ny) \<Rightarrow>
                  Inr (s\<lparr> overlayState := (overlayState s)
                         \<lparr> scale := sc, overlayX := nx, overlayY := ny \<rparr> \<rparr>)
              | _ \<Rightarrow> Inl NonFinite)
      | _ \<Rightarrow> Inr s)"

definition handleTouchEnd :: "touch list \<Rightarrow> globals \<Rightarrow> globals" where
  "handleTouchEnd touches s = (if touches = [] then s\<lparr> pinchStartDistance := 0 \<rparr> else s)"

section \<open>Events\<close>

text \<open>
  The listeners \<open>initControls\<close> installs. A touch event carries \<open>e.touches\<close>, a
  touch-start also the value of \<open>Date.now()\<close>; \<open>touchcancel\<close> shares the handler
  of \<open>touchend\<close>.
\<close>

datatype gesture =
    TouchStart "touch list" int
  | TouchMove "touch list"
  | TouchEnd "touch list"

fun handleGesture :: "gesture \<Rightarrow> globals \<Rightarrow> fault + globals" where
  "handleGesture (TouchStart touches now) s = Inr (handleTouchStart touches now s)"
| "handleGesture (TouchMove touches) s = handleTouchMove touches s"
| "handleGesture (TouchEnd touches) s = Inr (handleTouchEnd touches s)"

definition zoomInClick :: "globals \<Rightarrow> globals" where
  "zoomInClick s =
     (if \<not> overlayReady s \<or> locked (overlayState s) then s
      else
        let factor = 11 / 10;
            newScale = scale (overlayState s) * factor
        in s\<lparr> overlayState := (overlayState s)\<lparr> scale := min 8 newScale \<rparr> \<rparr>)"

definition zoomOutClick :: "globals \<Rightarrow> globals" where
  "zoomOutClick s =
     (if \<not> overlayReady s \<or> locked (overlayState s) then s
      else
        let factor = 1 / (11 / 10);
            newScale = scale (overlayState s) * factor
        in s\<lparr> overlayState := (overlayState s)\<lparr> scale := max (1 / 10) newScale \<rparr> \<rparr>)"

definition resizeEvent :: "window \<Rightarrow> globals \<Rightarrow> globals" where
  "resizeEvent w s =
     (if \<not> cameraActive (appState s) then s
      else resetOverlayTransform (resizeCanvas w s))"

datatype event =
    Gesture gesture
  | LandingPrimaryClick bool window
  | ImageDecoded window image
  | ZoomInClick
  | ZoomOutClick
  | LockClick
  | ResetClick
  | ChangeImageClick
  | HideUiClick
  | CanvasClick
  | BrightnessInput real
  | ContrastInput real
  | OpacityInput real
  | Resize window
  | OrientationChange window

fun dispatch :: "event \<Rightarrow> globals \<Rightarrow> fault + globals" where
  "dispatch (Gesture g) s = handleGesture g s"
| "dispatch (LandingPrimaryClick granted w) s =
     Inr (if \<not> hasImage (appState s) then s else startCamera granted w s)"
| "dispatch (ImageDecoded w img) s = Inr (handleImageFile w img s)"
| "dispatch ZoomInClick s = Inr (zoomInClick s)"
| "dispatch ZoomOutClick s = Inr (zoomOutClick s)"
| "dispatch LockClick s = Inr (toggleLock s)"
| "dispatch ResetClick s = Inr (resetOverlayTransform s)"
| "dispatch ChangeImageClick s = Inr (enterLandingMode (stopCamera s))"
| "dispatch HideUiClick s = Inr (setUiHidden (\<not> uiHidden (appState s)) s)"
| "dispatch CanvasClick s = Inr (if uiHidden (appState s) then setUiHidden False s else s)"
| "dispatch (BrightnessInput v) s =
     Inr (s\<lparr> filterState := (filterState s)\<lparr> brightness := v \<rparr> \<rparr>)"
| "dispatch (ContrastInput v) s =
     Inr (s\<lparr> filterState := (filterState s)\<lparr> contrast := v \<rparr> \<rparr>)"
| "dispatch (OpacityInput v) s =
     Inr (s\<lparr> filterState := (filterState s)\<lparr> opacity := v \<rparr> \<rparr>)"
| "dispatch (Resize w) s = Inr (resizeEvent w s)"
| "dispatch (OrientationChange w) s = Inr (resizeEvent w s)"

text \<open>Events are handled one after the other, each to completion.\<close>

fun run :: "event list \<Rightarrow> globals \<Rightarrow> fault + globals" where
  "run [] s = Inr s"
| "run (e # es) s = (case dispatch e s of Inl f \<Rightarrow> Inl f | Inr s' \<Rightarrow> run es s')"

fun runGestures :: "gesture list \<Rightarrow> globals \<Rightarrow> fault + globals" where
  "runGestures [] s = Inr s"
| "runGestures (g # gs) s =
     (case handleGesture g s of Inl f \<Rightarrow> Inl f | Inr s' \<Rightarrow> runGestures gs s')"

text \<open>The state once the \<open>load\<close> listener has run.\<close>

definition boot :: "window \<Rightarrow> globals" where
  "boot w = enterLandingMode (initial w)"

section \<open>Vocabulary of the properties\<close>

text \<open>
  The scale a pinch move stores when the recorded start scale \<open>s0\<close> is not zero, for a
  current distance \<open>d\<close>, a recorded start distance \<open>d0\<close>: the clamped product, where a
  recorded distance of zero makes the quotient an infinity that the clamp cuts to a bound.
\<close>

definition clampScale :: "real \<Rightarrow> real \<Rightarrow> real \<Rightarrow> real" where
  "clampScale d d0 s0 =
     (if d0 = 0 then (if 0 < s0 then 8 else 1 / 10) else max (1 / 10) (min 8 (d / d0 * s0)))"

definition scaleInRange :: "globals \<Rightarrow> bool" where
  "scaleInRange s = (1 / 10 \<le> scale (overlayState s) \<and> scale (overlayState s) \<le> 8)"

text \<open>
  \<open>pinchStartScale\<close> starts at 1 and is only ever assigned the current scale, so it is
  not zero in any state the script reaches while the scale is in range.
\<close>

definition wellFormed :: "globals \<Rightarrow> bool" where
  "wellFormed s = (scaleInRange s \<and> pinchStartScale s \<noteq> 0)"

text \<open>The test of \<open>handleTouchStart\<close> that takes the double-tap branch.\<close>

definition doubleTap :: "touch list \<Rightarrow> int \<Rightarrow> globals \<Rightarrow> bool" where
  "doubleTap touches now s =
     (overlayReady s \<and> \<not> uiHidden (appState s) \<and>
      (case touches of
         [t] \<Rightarrow> now - lastTapTime s < 300
           \<and> (clientX t - lastTapX s) * (clientX t - lastTapX s)
              + (clientY t - lastTapY s) * (clientY t - lastTapY s) < 30 * 30
       | _ \<Rightarrow> False))"

fun isDoubleTap :: "gesture \<Rightarrow> globals \<Rightarrow> bool" where
  "isDoubleTap (TouchStart touches now) s = doubleTap touches now s"
| "isDoubleTap (TouchMove touches) s = False"
| "isDoubleTap (TouchEnd touches) s = False"

text \<open>Whether some gesture of the sequence, run from \<open>s\<close>, is a double tap.\<close>

fun doubleTapFires :: "gesture list \<Rightarrow> globals \<Rightarrow> bool" where
  "doubleTapFires [] s = False"
| "doubleTapFires (g # gs) s =
     (isDoubleTap g s \<or>
      (case handleGesture g s of Inl f \<Rightarrow> False | Inr s' \<Rightarrow> doubleTapFires gs s'))"

definition placement :: "globals \<Rightarrow> real \<times> real \<times> real" where
  "placement s = (scale (overlayState s), overlayX (overlayState s), overlayY (overlayState s))"

definition centred :: "globals \<Rightarrow> real \<times> real \<times> real" where
  "centred s = (1, viewportWidth s / 2, viewportHeight s / 2)"

text \<open>
  The horizontal position a pinch move would store for the scale \<open>k\<close> if the anchor were
  the midpoint recorded at pinch start, in the words of the specification:
  \<open>worldX = (midpoint.x - origin.x) / s0\<close>, \<open>x = currentMidpoint.x - worldX * newScale\<close>.
\<close>

definition specPinchX :: "globals \<Rightarrow> touch \<Rightarrow> touch \<Rightarrow> real \<Rightarrow> real" where
  "specPinchX s t0 t1 k =
     (clientX t0 + clientX t1) / 2
       - (pinchStartCenterX s - overlayStartXForPinch s) / pinchStartScale s * k"

section \<open>Example states and inputs\<close>

definition portrait :: window where
  "portrait = \<lparr> innerWidth = 400, innerHeight = 800, devicePixelRatio = 2 \<rparr>"

definition landscape :: window where
  "landscape = \<lparr> innerWidth = 800, innerHeight = 400, devicePixelRatio = 2 \<rparr>"

definition photo :: image where
  "photo = \<lparr> src = FileData ''photo'', naturalWidth = 2000, naturalHeight = 1000 \<rparr>"

definition poster :: image where
  "poster = \<lparr> src = FileData ''poster'', naturalWidth = 8000, naturalHeight = 6000 \<rparr>"

definition strip :: image where
  "strip = \<lparr> src = FileData ''strip'', naturalWidth = 10000, naturalHeight = 1 \<rparr>"

definition finger :: "real \<Rightarrow> real \<Rightarrow> touch" where
  "finger a b = \<lparr> clientX = a, clientY = b \<rparr>"

text \<open>The photo has been decoded on a portrait screen; the camera is not started yet.\<close>

definition loaded :: globals where
  "loaded = handleImageFile portrait photo (boot portrait)"

text \<open>The camera runs and the overlay is drawn over it.\<close>

definition tracing :: globals where
  "tracing = startCamera True portrait loaded"

definition hiddenUi :: globals where
  "hiddenUi = setUiHidden True tracing"

definition zoomedLocked :: globals where
  "zoomedLocked = toggleLock (zoomInClick tracing)"

definition tuned :: globals where
  "tuned = tracing\<lparr> filterState := (filterState tracing)\<lparr> brightness := 2 \<rparr> \<rparr>"

section \<open>Reset\<close>

text \<open>
  C8. The reset operation sets the scale to 1 and the position to the centre of the
  viewport, and leaves the rotation and the lock flag as they were, from every state.
\<close>

theorem reset_sets_scale_and_centre_only:
  "scale (overlayState (resetOverlayTransform s)) = 1
   \<and> overlayX (overlayState (resetOverlayTransform s)) = viewportWidth s / 2
   \<and> overlayY (overlayState (resetOverlayTransform s)) = viewportHeight s / 2
   \<and> rotation (overlayState (resetOverlayTransform s)) = rotation (overlayState s)
   \<and> locked (overlayState (resetOverlayTransform s)) = locked (overlayState s)"
  by (simp add: resetOverlayTransform_def)

section \<open>Helper facts\<close>

lemma hypot_nonneg: "0 \<le> hypot a b"
  by (simp add: hypot_def)

lemma hypot_level: "hypot a 0 = \<bar>a\<bar>"
  by (simp add: hypot_def)

lemma or_one_hypot_pos: "0 < or_one (hypot a b)"
  using hypot_nonneg [of a b] by (auto simp: or_one_def less_le)

lemma pinch_scale_finite:
  assumes "0 < d" and "s0 \<noteq> 0"
  shows "js_max (1 / 10) (js_min 8 (js_mul (js_div d d0) (Finite s0)))
    = Finite (clampScale d d0 s0)"
  using assms by (simp add: js_div_def signed_infinity_def clampScale_def)

lemma clampScale_bounds: "1 / 10 \<le> clampScale d d0 s0 \<and> clampScale d d0 s0 \<le> 8"
  by (simp add: clampScale_def max_def min_def)

text \<open>What a two-finger move stores, when it is handled and the start scale is not zero.\<close>

lemma handleTouchMove_pinch:
  assumes ready: "overlayReady s" and unlocked: "\<not> locked (overlayState s)"
    and s0: "pinchStartScale s \<noteq> 0"
  shows "handleTouchMove [t0, t1] s =
    Inr (s\<lparr> overlayState := (overlayState s)
      \<lparr> scale := clampScale (or_one (hypot (clientX t1 - clientX t0) (clientY t1 - clientY t0)))
                 (pinchStartDistance s) (pinchStartScale s),
        overlayX := (clientX t0 + clientX t1) / 2
          - ((clientX t0 + clientX t1) / 2 - overlayStartXForPinch s) / pinchStartScale s
            * clampScale (or_one (hypot (clientX t1 - clientX t0) (clientY t1 - clientY t0)))
                 (pinchStartDistance s) (pinchStartScale s),
        overlayY := (clientY t0 + clientY t1) / 2
          - ((clientY t0 + clientY t1) / 2 - overlayStartYForPinch s) / pinchStartScale s
            * clampScale (or_one (hypot (clientX t1 - clientX t0) (clientY t1 - clientY t0)))
                 (pinchStartDistance s) (pinchStartScale s) \<rparr> \<rparr>)"
proof -
  have w: "js_div a (pinchStartScale s) = Finite (a / pinchStartScale s)" for a
    using s0 by (simp add: js_div_def)
  show ?thesis
    unfolding handleTouchMove_def Let_def
    using ready unlocked by (simp add: pinch_scale_finite [OF or_one_hypot_pos s0] w)
qed

text \<open>What a two-finger touch-start records, when it is handled.\<close>

lemma recorded_pinch_start:
  assumes "overlayReady s" and "\<not> uiHidden (appState s)" and "\<not> locked (overlayState s)"
  shows "handleTouchStart [a0, a1] now s =
    s\<lparr> pinchStartDistance := or_one (hypot (clientX a1 - clientX a0) (clientY a1 - clientY a0)),
       pinchStartScale := scale (overlayState s),
       pinchStartCenterX := (clientX a0 + clientX a1) / 2,
       pinchStartCenterY := (clientY a0 + clientY a1) / 2,
       overlayStartXForPinch := overlayX (overlayState s),
       overlayStartYForPinch := overlayY (overlayState s) \<rparr>"
  using assms by (simp add: handleTouchStart_def Let_def)

lemma recorded_pinch_distance_positive:
  assumes "overlayReady s" and "\<not> uiHidden (appState s)" and "\<not> locked (overlayState s)"
  shows "0 < pinchStartDistance (handleTouchStart [a0, a1] now s)"
  using assms by (simp add: recorded_pinch_start or_one_hypot_pos)

lemma handleTouchMove_total:
  assumes "pinchStartScale s \<noteq> 0"
  shows "\<exists>s'. handleTouchMove ts s = Inr s' \<and> pinchStartScale s' = pinchStartScale s
     \<and> (scaleInRange s \<longrightarrow> scaleInRange s')"
proof (cases "overlayReady s \<and> \<not> locked (overlayState s)")
  case False
  then show ?thesis by (auto simp: handleTouchMove_def)
next
  case handled: True
  show ?thesis
  proof (cases ts)
    case Nil
    then show ?thesis by (simp add: handleTouchMove_def)
  next
    case outer: (Cons t0 r)
    show ?thesis
    proof (cases r)
      case Nil
      with outer show ?thesis by (simp add: handleTouchMove_def Let_def scaleInRange_def)
    next
      case inner: (Cons t1 r')
      show ?thesis
      proof (cases r')
        case Nil
        with outer inner have "ts = [t0, t1]" by simp
        then show ?thesis
          using handleTouchMove_pinch [of s t0 t1] handled assms clampScale_bounds
          by (simp add: scaleInRange_def)
      next
        case (Cons t2 r'')
        with outer inner show ?thesis by (simp add: handleTouchMove_def)
      qed
    qed
  qed
qed

lemmas example_defs = hiddenUi_def zoomedLocked_def tuned_def tracing_def loaded_def boot_def
  initial_def portrait_def landscape_def photo_def poster_def finger_def startCamera_def
  handleImageFile_def exposeImage_def enterLandingMode_def stopCamera_def resetFilters_def
  resetOverlayTransform_def resizeCanvas_def updateViewportSize_def setUiHidden_def
  toggleLock_def zoomInClick_def zoomOutClick_def createDownscaledImageIfNeeded_def Let_def

text \<open>The example states are states the script reaches from its start.\<close>

lemma tracing_reachable:
  "run [ImageDecoded portrait photo, LandingPrimaryClick True portrait] (boot portrait)
     = Inr tracing"
  by (simp add: tracing_def loaded_def handleImageFile_def exposeImage_def photo_def Let_def
      resetFilters_def resetOverlayTransform_def resizeCanvas_def updateViewportSize_def)

lemma hiddenUi_reachable: "dispatch HideUiClick tracing = Inr hiddenUi"
  by (simp add: example_defs)

lemma zoomedLocked_reachable: "run [ZoomInClick, LockClick] tracing = Inr zoomedLocked"
  by (simp add: zoomedLocked_def)

lemma tuned_reachable: "dispatch (BrightnessInput 2) tracing = Inr tuned"
  by (simp add: tuned_def)

lemma tracing_fields:
  "overlayReady tracing" "\<not> uiHidden (appState tracing)" "\<not> locked (overlayState tracing)"
  "scale (overlayState tracing) = 1" "overlayX (overlayState tracing) = 200"
  "overlayY (overlayState tracing) = 400"
  "pinchStartDistance tracing = 0" "pinchStartScale tracing = 1"
  "cameraActive (appState tracing)" "viewportWidth tracing = 400" "viewportHeight tracing = 800"
  by (simp_all add: example_defs)

section \<open>Scale clamping\<close>

lemma handleTouchStart_wellFormed:
  "wellFormed s \<Longrightarrow> wellFormed (handleTouchStart ts now s)"
  by (auto simp: wellFormed_def scaleInRange_def handleTouchStart_def Let_def setUiHidden_def
      resetOverlayTransform_def split: list.splits)

lemma handleTouchEnd_wellFormed:
  "wellFormed s \<Longrightarrow> wellFormed (handleTouchEnd ts s)"
  by (simp add: wellFormed_def scaleInRange_def handleTouchEnd_def)

lemma handleTouchMove_wellFormed:
  assumes "wellFormed s"
  shows "\<exists>s'. handleTouchMove ts s = Inr s' \<and> wellFormed s'"
  using handleTouchMove_total [of s ts] assms by (auto simp: wellFormed_def)

lemma handleGesture_wellFormed:
  assumes "wellFormed s"
  shows "\<exists>s'. handleGesture g s = Inr s' \<and> wellFormed s'"
  using assms
  by (cases g)
    (simp_all add: handleTouchStart_wellFormed handleTouchEnd_wellFormed
      handleTouchMove_wellFormed)

lemma zoomInClick_wellFormed: "wellFormed s \<Longrightarrow> wellFormed (zoomInClick s)"
  by (auto simp: wellFormed_def scaleInRange_def zoomInClick_def Let_def min_def)

lemma zoomOutClick_wellFormed: "wellFormed s \<Longrightarrow> wellFormed (zoomOutClick s)"
  by (auto simp: wellFormed_def scaleInRange_def zoomOutClick_def Let_def max_def)

lemma dispatch_wellFormed:
  assumes "wellFormed s"
  shows "\<exists>s'. dispatch e s = Inr s' \<and> wellFormed s'"
proof (cases e)
  case (Gesture g)
  then show ?thesis using handleGesture_wellFormed [OF assms, of g] by simp
next
  case (LandingPrimaryClick granted w)
  then show ?thesis using assms
    by (simp add: wellFormed_def scaleInRange_def startCamera_def resizeCanvas_def
        updateViewportSize_def)
next
  case (ImageDecoded w img)
  then show ?thesis using assms
    by (simp add: wellFormed_def scaleInRange_def handleImageFile_def exposeImage_def Let_def
        resetFilters_def resetOverlayTransform_def resizeCanvas_def updateViewportSize_def)
next
  case ZoomInClick
  then show ?thesis using assms by (simp add: zoomInClick_wellFormed)
next
  case ZoomOutClick
  then show ?thesis using assms by (simp add: zoomOutClick_wellFormed)
next
  case LockClick
  then show ?thesis using assms by (simp add: wellFormed_def scaleInRange_def toggleLock_def)
next
  case ResetClick
  then show ?thesis using assms
    by (simp add: wellFormed_def scaleInRange_def resetOverlayTransform_def)
next
  case ChangeImageClick
  then show ?thesis using assms
    by (simp add: wellFormed_def scaleInRange_def enterLandingMode_def Let_def stopCamera_def
        resetFilters_def resetOverlayTransform_def)
next
  case HideUiClick
  then show ?thesis using assms by (simp add: wellFormed_def scaleInRange_def setUiHidden_def)
next
  case CanvasClick
  then show ?thesis using assms by (simp add: wellFormed_def scaleInRange_def setUiHidden_def)
next
  case (BrightnessInput v)
  then show ?thesis using assms by (simp add: wellFormed_def scaleInRange_def)
next
  case (ContrastInput v)
  then show ?thesis using assms by (simp add: wellFormed_def scaleInRange_def)
next
  case (OpacityInput v)
  then show ?thesis using assms by (simp add: wellFormed_def scaleInRange_def)
next
  case (Resize w)
  then show ?thesis using assms
    by (simp add: wellFormed_def scaleInRange_def resizeEvent_def resetOverlayTransform_def
        resizeCanvas_def updateViewportSize_def)
next
  case (OrientationChange w)
  then show ?thesis using assms
    by (simp add: wellFormed_def scaleInRange_def resizeEvent_def resetOverlayTransform_def
        resizeCanvas_def updateViewportSize_def)
qed

lemma run_wellFormed:
  "wellFormed s \<Longrightarrow> \<exists>s'. run es s = Inr s' \<and> wellFormed s'"
proof (induction es arbitrary: s)
  case Nil
  then show ?case by simp
next
  case (Cons e es)
  from dispatch_wellFormed [OF Cons.prems, of e]
  obtain s1 where s1: "dispatch e s = Inr s1" "wellFormed s1" by blast
  from Cons.IH [OF s1(2)] s1(1) show ?case by simp
qed

lemma boot_wellFormed: "wellFormed (boot w)"
  by (simp add: boot_def initial_def wellFormed_def scaleInRange_def enterLandingMode_def Let_def
      stopCamera_def resetFilters_def resetOverlayTransform_def)

text \<open>From the start of the script, every sequence of events ends with the scale in range.\<close>

lemma scale_in_range_from_boot:
  "\<exists>s'. run es (boot w) = Inr s' \<and> scaleInRange s'"
  using run_wellFormed [OF boot_wellFormed, of es] by (auto simp: wellFormed_def)

text \<open>
  C3. From a state whose scale lies in [0.1, 8] (and whose recorded pinch-start scale is
  not zero, as in every state the script reaches), every sequence of events, among them
  the zoom buttons, pinch gestures and resets, is handled to its end and leaves the
  scale in [0.1, 8]. Every prefix of a sequence is a sequence, so the bound holds after
  each operation.
\<close>

theorem scale_clamped_after_every_operation:
  assumes "1 / 10 \<le> scale (overlayState s)" and "scale (overlayState s) \<le> 8"
    and "pinchStartScale s \<noteq> 0"
  shows "\<exists>s'. run es s = Inr s'
    \<and> 1 / 10 \<le> scale (overlayState s') \<and> scale (overlayState s') \<le> 8"
  using run_wellFormed [of s es] assms by (auto simp: wellFormed_def scaleInRange_def)

theorem scale_clamped_witness:
  "1 / 10 \<le> scale (overlayState tracing) \<and> scale (overlayState tracing) \<le> 8
   \<and> pinchStartScale tracing \<noteq> 0
   \<and> (\<exists>s'. run [ZoomInClick, Gesture (TouchStart [finger 150 400, finger 250 400] 1000),
                 Gesture (TouchMove [finger 0 400, finger 4000 400]), Gesture (TouchEnd []),
                 ZoomOutClick, ResetClick] tracing = Inr s'
         \<and> 1 / 10 \<le> scale (overlayState s') \<and> scale (overlayState s') \<le> 8)"
  using scale_clamped_after_every_operation [of tracing
      "[ZoomInClick, Gesture (TouchStart [finger 150 400, finger 250 400] 1000),
        Gesture (TouchMove [finger 0 400, finger 4000 400]), Gesture (TouchEnd []),
        ZoomOutClick, ResetClick]"]
  by (simp add: tracing_fields)

section \<open>Zoom buttons\<close>

text \<open>
  C10. In an unlocked state with an image loaded, the zoom-in button sets the scale to
  min(8, scale * 1.1) and the zoom-out button sets it to max(0.1, scale / 1.1); each
  changes no other field. Zooming in does not decrease a scale in [0, 8], and zooming
  out does not increase a scale of at least 0.1.
\<close>

theorem zoom_buttons_scale_only:
  assumes "overlayReady s" and "\<not> locked (overlayState s)"
  shows "zoomInClick s
      = s\<lparr> overlayState := (overlayState s)
             \<lparr> scale := min 8 (scale (overlayState s) * (11 / 10)) \<rparr> \<rparr>
    \<and> zoomOutClick s
      = s\<lparr> overlayState := (overlayState s)
             \<lparr> scale := max (1 / 10) (scale (overlayState s) / (11 / 10)) \<rparr> \<rparr>
    \<and> (0 \<le> scale (overlayState s) \<and> scale (overlayState s) \<le> 8
         \<longrightarrow> scale (overlayState s) \<le> scale (overlayState (zoomInClick s)))
    \<and> (1 / 10 \<le> scale (overlayState s)
         \<longrightarrow> scale (overlayState (zoomOutClick s)) \<le> scale (overlayState s))"
  using assms by (auto simp: zoomInClick_def zoomOutClick_def Let_def min_def max_def)

theorem zoom_buttons_witness:
  "overlayReady tracing \<and> \<not> locked (overlayState tracing)
   \<and> scale (overlayState tracing) = 1
   \<and> scale (overlayState (zoomInClick tracing)) = 11 / 10
   \<and> scale (overlayState (zoomOutClick tracing)) = 10 / 11
   \<and> scale (overlayState tracing) \<le> scale (overlayState (zoomInClick tracing))
   \<and> scale (overlayState (zoomOutClick tracing)) \<le> scale (overlayState tracing)"
  using zoom_buttons_scale_only [of tracing] by (simp add: tracing_fields)

section \<open>Gestures on a locked overlay\<close>

lemma locked_touch_start:
  assumes "locked (overlayState s)"
  shows "locked (overlayState (handleTouchStart ts now s))
    \<and> viewportWidth (handleTouchStart ts now s) = viewportWidth s
    \<and> viewportHeight (handleTouchStart ts now s) = viewportHeight s
    \<and> placement (handleTouchStart ts now s)
        = (if doubleTap ts now s then centred s else placement s)"
  using assms
  by (auto simp: handleTouchStart_def setUiHidden_def placement_def centred_def doubleTap_def
      resetOverlayTransform_def Let_def split: list.splits)

lemma locked_gesture:
  assumes "locked (overlayState s)"
  shows "\<exists>s'. handleGesture g s = Inr s' \<and> locked (overlayState s')
    \<and> viewportWidth s' = viewportWidth s \<and> viewportHeight s' = viewportHeight s
    \<and> placement s' = (if isDoubleTap g s then centred s else placement s)"
proof (cases g)
  case (TouchStart ts now)
  then show ?thesis using locked_touch_start [OF assms, of ts now] by simp
next
  case (TouchMove ts)
  then show ?thesis using assms by (simp add: handleTouchMove_def)
next
  case (TouchEnd ts)
  then show ?thesis using assms by (simp add: handleTouchEnd_def placement_def)
qed

lemma centred_cong:
  "viewportWidth a = viewportWidth b \<Longrightarrow> viewportHeight a = viewportHeight b
    \<Longrightarrow> centred a = centred b"
  by (simp add: centred_def)

text \<open>
  C1, as the script has it. While the overlay is locked, every sequence of touch-start,
  touch-move and touch-end events is handled to its end and keeps the overlay locked;
  scale and position after the sequence equal those before it unless a touch-start of
  the sequence was a double tap, in which case they are the reset values (1, half the
  viewport width, half the viewport height): the double-tap test of a single-finger
  touch-start comes before the lock test.
\<close>

theorem locked_gestures_change_placement_only_by_double_tap:
  assumes "locked (overlayState s)"
  shows "\<exists>s'. runGestures gs s = Inr s' \<and> locked (overlayState s')
    \<and> placement s' = (if doubleTapFires gs s then centred s else placement s)"
  using assms
proof (induction gs arbitrary: s)
  case Nil
  then show ?case by simp
next
  case (Cons g gs)
  from locked_gesture [OF Cons.prems, of g]
  obtain s1 where s1: "handleGesture g s = Inr s1" "locked (overlayState s1)"
    "viewportWidth s1 = viewportWidth s" "viewportHeight s1 = viewportHeight s"
    "placement s1 = (if isDoubleTap g s then centred s else placement s)"
    by blast
  from Cons.IH [OF s1(2)]
  obtain s2 where s2: "runGestures gs s1 = Inr s2" "locked (overlayState s2)"
    "placement s2 = (if doubleTapFires gs s1 then centred s1 else placement s1)"
    by blast
  have "centred s1 = centred s" using s1(3,4) by (rule centred_cong)
  with s1 s2 show ?case by simp
qed

lemma zoomedLocked_fields:
  "locked (overlayState zoomedLocked)" "placement zoomedLocked = (11 / 10, 200, 400)"
  "scale (overlayState zoomedLocked) = 11 / 10" "overlayX (overlayState zoomedLocked) = 200"
  "overlayY (overlayState zoomedLocked) = 400"
  "overlayReady zoomedLocked" "\<not> uiHidden (appState zoomedLocked)"
  "lastTapTime zoomedLocked = 0" "lastTapX zoomedLocked = 0" "lastTapY zoomedLocked = 0"
  "viewportWidth zoomedLocked = 400" "viewportHeight zoomedLocked = 800"
  by (simp_all add: example_defs placement_def)

text \<open>A pan, a lift and a pinch on the locked overlay: nothing moves.\<close>

theorem locked_gestures_witness:
  "locked (overlayState zoomedLocked)
   \<and> placement zoomedLocked = (11 / 10, 200, 400)
   \<and> (\<exists>s'. runGestures [TouchStart [finger 100 100] 1000, TouchMove [finger 180 260],
                TouchEnd [], TouchStart [finger 100 100, finger 200 100] 5000,
                TouchMove [finger 50 100, finger 350 100]] zoomedLocked = Inr s'
         \<and> locked (overlayState s') \<and> placement s' = (11 / 10, 200, 400))"
proof -
  have quiet: "\<not> doubleTapFires [TouchStart [finger 100 100] 1000, TouchMove [finger 180 260],
                TouchEnd [], TouchStart [finger 100 100, finger 200 100] 5000,
                TouchMove [finger 50 100, finger 350 100]] zoomedLocked"
    by (simp add: doubleTap_def handleTouchStart_def handleTouchMove_def handleTouchEnd_def
        zoomedLocked_fields Let_def)
  show ?thesis
    using locked_gestures_change_placement_only_by_double_tap [OF zoomedLocked_fields(1),
        of "[TouchStart [finger 100 100] 1000, TouchMove [finger 180 260],
             TouchEnd [], TouchStart [finger 100 100, finger 200 100] 5000,
             TouchMove [finger 50 100, finger 350 100]]"] quiet
    by (simp add: zoomedLocked_fields)
qed

text \<open>Two taps at one point, 100 ms apart, on the locked overlay: the scale goes from 1.1 to 1.\<close>

theorem locked_double_tap_counterexample:
  "locked (overlayState zoomedLocked)
   \<and> placement zoomedLocked = (11 / 10, 200, 400)
   \<and> map_sum id (locked \<circ> overlayState)
        (runGestures [TouchStart [finger 100 100] 1000, TouchStart [finger 100 100] 1100]
           zoomedLocked) = Inr True
   \<and> map_sum id placement
        (runGestures [TouchStart [finger 100 100] 1000, TouchStart [finger 100 100] 1100]
           zoomedLocked) = Inr (1, 200, 400)"
  by (simp add: handleTouchStart_def resetOverlayTransform_def zoomedLocked_fields Let_def
      placement_def finger_def)

section \<open>Double tap\<close>

text \<open>
  C4. With an image ready and the controls visible, let a single-finger touch-start at
  time t1 be recorded as the last tap (it does not itself complete a double tap). A
  second single-finger touch-start less than 300 ms later, with squared distance below
  900 from the first, takes the double-tap branch: scale 1, position the centre of the
  viewport, last-tap time cleared to 0; and a third touch-start (at any clock value of
  at least 300, as every value of Date.now() is) does not take that branch again but is
  recorded as a new last tap. A second touch-start 300 ms or more after the first, so
  also one 500 ms after it, does not take the double-tap branch: it leaves the overlay
  as it was and is recorded as the last tap.
\<close>

theorem double_tap_resets_once:
  assumes ready: "overlayReady s" and visible: "\<not> uiHidden (appState s)"
    and first: "\<not> doubleTap [p] t1 s"
  shows "(t2 - t1 < 300 \<and> (clientX q - clientX p) * (clientX q - clientX p)
              + (clientY q - clientY p) * (clientY q - clientY p) < 900
          \<longrightarrow> doubleTap [q] t2 (handleTouchStart [p] t1 s)
            \<and> placement (handleTouchStart [q] t2 (handleTouchStart [p] t1 s)) = centred s
            \<and> lastTapTime (handleTouchStart [q] t2 (handleTouchStart [p] t1 s)) = 0
            \<and> (300 \<le> t3 \<longrightarrow>
                 \<not> doubleTap [r] t3 (handleTouchStart [q] t2 (handleTouchStart [p] t1 s))
                 \<and> lastTapTime (handleTouchStart [r] t3
                      (handleTouchStart [q] t2 (handleTouchStart [p] t1 s))) = t3))
    \<and> (300 \<le> t2 - t1
          \<longrightarrow> \<not> doubleTap [q] t2 (handleTouchStart [p] t1 s)
            \<and> overlayState (handleTouchStart [q] t2 (handleTouchStart [p] t1 s))
                = overlayState (handleTouchStart [p] t1 s)
            \<and> lastTapTime (handleTouchStart [q] t2 (handleTouchStart [p] t1 s)) = t2)"
  using assms
  by (auto simp: handleTouchStart_def doubleTap_def placement_def centred_def
      resetOverlayTransform_def Let_def)

lemma finger_fields: "clientX (finger a b) = a" "clientY (finger a b) = b"
  by (simp_all add: finger_def)

lemma zoomed_fields:
  "overlayReady (zoomInClick tracing)" "\<not> uiHidden (appState (zoomInClick tracing))"
  "\<not> doubleTap [finger 100 100] 1000 (zoomInClick tracing)"
  "placement (zoomInClick tracing) = (11 / 10, 200, 400)"
  "centred (zoomInClick tracing) = (1, 200, 400)"
  by (simp_all add: example_defs doubleTap_def placement_def centred_def)

theorem double_tap_witness:
  "overlayReady (zoomInClick tracing) \<and> \<not> uiHidden (appState (zoomInClick tracing))
   \<and> \<not> doubleTap [finger 100 100] 1000 (zoomInClick tracing)
   \<and> placement (zoomInClick tracing) = (11 / 10, 200, 400)
   \<and> placement (handleTouchStart [finger 110 120] 1200
        (handleTouchStart [finger 100 100] 1000 (zoomInClick tracing))) = (1, 200, 400)
   \<and> lastTapTime (handleTouchStart [finger 110 120] 1200
        (handleTouchStart [finger 100 100] 1000 (zoomInClick tracing))) = 0
   \<and> lastTapTime (handleTouchStart [finger 110 120] 1300
        (handleTouchStart [finger 110 120] 1200
          (handleTouchStart [finger 100 100] 1000 (zoomInClick tracing)))) = 1300
   \<and> overlayState (handleTouchStart [finger 110 120] 1500
        (handleTouchStart [finger 100 100] 1000 (zoomInClick tracing)))
       = overlayState (handleTouchStart [finger 100 100] 1000 (zoomInClick tracing))
   \<and> lastTapTime (handleTouchStart [finger 110 120] 1500
        (handleTouchStart [finger 100 100] 1000 (zoomInClick tracing))) = 1500"
  using double_tap_resets_once [OF zoomed_fields(1) zoomed_fields(2) zoomed_fields(3),
      of 1200 "finger 110 120" 1300 "finger 110 120"]
    double_tap_resets_once [OF zoomed_fields(1) zoomed_fields(2) zoomed_fields(3),
      of 1500 "finger 110 120" 0 "finger 110 120"]
  by (simp add: zoomed_fields finger_fields)

section \<open>Pinch anchor\<close>

text \<open>
  What every two-finger move of a pinch stores. In a state that is handled (image ready,
  overlay unlocked) and holds a pinch origin with start distance and start scale not
  zero, the move stores the clamped scale and anchors the overlay at the CURRENT
  midpoint of the two fingers, taken against the recorded transform and scale; it
  leaves the recorded origin as it is, so the same holds for the next move. The image
  point under the current midpoint is the one that lay there under the recorded
  transform. The midpoint recorded at pinch start is not read.
\<close>

lemma pinch_move_from_recorded_origin:
  assumes ready: "overlayReady s" and unlocked: "\<not> locked (overlayState s)"
    and s0: "pinchStartScale s \<noteq> 0" and d0: "pinchStartDistance s \<noteq> 0"
  shows "\<exists>s2. handleTouchMove [b0, b1] s = Inr s2
    \<and> scale (overlayState s2)
        = max (1 / 10) (min 8 (or_one (hypot (clientX b1 - clientX b0) (clientY b1 - clientY b0))
            / pinchStartDistance s * pinchStartScale s))
    \<and> overlayX (overlayState s2)
        = (clientX b0 + clientX b1) / 2
          - ((clientX b0 + clientX b1) / 2 - overlayStartXForPinch s) / pinchStartScale s
            * scale (overlayState s2)
    \<and> overlayY (overlayState s2)
        = (clientY b0 + clientY b1) / 2
          - ((clientY b0 + clientY b1) / 2 - overlayStartYForPinch s) / pinchStartScale s
            * scale (overlayState s2)
    \<and> ((clientX b0 + clientX b1) / 2 - overlayX (overlayState s2)) / scale (overlayState s2)
        = ((clientX b0 + clientX b1) / 2 - overlayStartXForPinch s) / pinchStartScale s
    \<and> ((clientY b0 + clientY b1) / 2 - overlayY (overlayState s2)) / scale (overlayState s2)
        = ((clientY b0 + clientY b1) / 2 - overlayStartYForPinch s) / pinchStartScale s
    \<and> overlayReady s2 \<and> \<not> locked (overlayState s2)
    \<and> pinchStartScale s2 = pinchStartScale s
    \<and> pinchStartDistance s2 = pinchStartDistance s
    \<and> overlayStartXForPinch s2 = overlayStartXForPinch s
    \<and> overlayStartYForPinch s2 = overlayStartYForPinch s"
proof -
  define k where
    "k = clampScale (or_one (hypot (clientX b1 - clientX b0) (clientY b1 - clientY b0)))
      (pinchStartDistance s) (pinchStartScale s)"
  have "1 / 10 \<le> k" unfolding k_def using clampScale_bounds by blast
  then have kz: "k \<noteq> 0" by auto
  have keq: "k = max (1 / 10)
      (min 8 (or_one (hypot (clientX b1 - clientX b0) (clientY b1 - clientY b0))
            / pinchStartDistance s * pinchStartScale s))"
    unfolding k_def clampScale_def using d0 by simp
  have "handleTouchMove [b0, b1] s = Inr (s\<lparr> overlayState := (overlayState s)
      \<lparr> scale := k,
        overlayX := (clientX b0 + clientX b1) / 2
          - ((clientX b0 + clientX b1) / 2 - overlayStartXForPinch s)
            / pinchStartScale s * k,
        overlayY := (clientY b0 + clientY b1) / 2
          - ((clientY b0 + clientY b1) / 2 - overlayStartYForPinch s)
            / pinchStartScale s * k \<rparr> \<rparr>)"
    using handleTouchMove_pinch [OF ready unlocked s0, of b0 b1] by (simp add: k_def)
  then show ?thesis
    using kz keq ready unlocked by simp
qed

text \<open>
  C2 at inputs where the script does not do what the claim says. The pinch starts with
  the fingers at (150, 400) and (250, 400), midpoint (200, 400), on the overlay at
  scale 1 and position (200, 400); the touch-start records that midpoint.

  First the two fingers are dragged side by side to (250, 400) and (350, 400): the
  distance stays 100 and the midpoint moves to (300, 400). With the anchor taken from
  the recorded midpoint the overlay would follow the fingers to x = 300; the script
  takes it from the current midpoint and leaves the overlay at x = 200.

  Then, from the same start, the fingers spread to (200, 400) and (400, 400): the scale
  doubles and the midpoint again moves to (300, 400). The script stores x = 100 where
  the recorded midpoint gives x = 300, and the image point under the recorded midpoint
  goes from 0 to 50.
\<close>

theorem pinch_move_ignores_recorded_midpoint:
  "placement tracing = (1, 200, 400)
   \<and> pinchStartCenterX (handleTouchStart [finger 150 400, finger 250 400] 1000 tracing) = 200
   \<and> map_sum id placement
        (handleTouchMove [finger 250 400, finger 350 400]
           (handleTouchStart [finger 150 400, finger 250 400] 1000 tracing))
       = Inr (1, 200, 400)
   \<and> specPinchX (handleTouchStart [finger 150 400, finger 250 400] 1000 tracing)
        (finger 250 400) (finger 350 400) 1 = 300
   \<and> map_sum id placement
        (handleTouchMove [finger 200 400, finger 400 400]
           (handleTouchStart [finger 150 400, finger 250 400] 1000 tracing))
       = Inr (2, 100, 400)
   \<and> specPinchX (handleTouchStart [finger 150 400, finger 250 400] 1000 tracing)
        (finger 200 400) (finger 400 400) 2 = 300
   \<and> (pinchStartCenterX (handleTouchStart [finger 150 400, finger 250 400] 1000 tracing)
        - overlayX (overlayState tracing)) / scale (overlayState tracing) = 0
   \<and> (pinchStartCenterX (handleTouchStart [finger 150 400, finger 250 400] 1000 tracing) - 100)
        / 2 = 50"
  by (simp add: handleTouchMove_def handleTouchStart_def placement_def specPinchX_def
      tracing_fields finger_fields hypot_level or_one_def js_div_def Let_def)

text \<open>The side-by-side drag alone.\<close>

theorem pinch_move_ignores_recorded_midpoint_witness:
  "map_sum id placement
     (handleTouchMove [finger 250 400, finger 350 400]
        (handleTouchStart [finger 150 400, finger 250 400] 1000 tracing))
    = Inr (1, 200, 400)
   \<and> specPinchX (handleTouchStart [finger 150 400, finger 250 400] 1000 tracing)
        (finger 250 400) (finger 350 400) 1 = 300"
  using pinch_move_ignores_recorded_midpoint by simp

section \<open>Division by the recorded pinch distance\<close>

text \<open>
  C7 at an input where the script divides by zero. The controls are hidden and two
  fingers land at once: the touch-start only shows the controls again and records no
  pinch origin, so \<open>pinchStartDistance\<close> is still the 0 it starts with (and that
  \<open>handleTouchEnd\<close> restores). The move that follows divides the guarded current
  distance by it: the quotient is Infinity, the clamp cuts the scale to 8, and the
  overlay jumps from (1, 200, 400) to (8, -2100, -2800).
\<close>

theorem pinch_move_without_recorded_start:
  "handleTouchStart [finger 150 400, finger 250 400] 1000 hiddenUi = tracing
   \<and> pinchStartDistance tracing = 0
   \<and> js_div (or_one (hypot (clientX (finger 400 400) - clientX (finger 200 400))
                            (clientY (finger 400 400) - clientY (finger 200 400))))
        (pinchStartDistance tracing) = PosInfinity
   \<and> placement tracing = (1, 200, 400)
   \<and> map_sum id placement (handleTouchMove [finger 200 400, finger 400 400] tracing)
        = Inr (8, - 2100, - 2800)"
  by (simp add: handleTouchMove_def handleTouchStart_def placement_def example_defs
      or_one_def js_div_def signed_infinity_def hypot_level)

text \<open>The move alone, from the state the consumed touch-start leaves.\<close>

theorem pinch_move_without_recorded_start_witness:
  "map_sum id placement (handleTouchMove [finger 200 400, finger 400 400] tracing)
     = Inr (8, - 2100, - 2800)"
  using pinch_move_without_recorded_start by simp

section \<open>Resize and orientation change\<close>

text \<open>
  C5, as the script has it. The resize and the orientation-change listener do the same.
  While the camera is active, the listener takes the new viewport size from the window
  and puts the overlay at its centre (width / 2, height / 2). While the camera is not
  active, the listener returns at once and changes nothing.
\<close>

theorem resize_recentres_while_camera_active:
  "dispatch (Resize w) s = Inr (resizeEvent w s)
   \<and> dispatch (OrientationChange w) s = Inr (resizeEvent w s)
   \<and> (cameraActive (appState s) \<longrightarrow>
        viewportWidth (resizeEvent w s) = innerWidth w
        \<and> viewportHeight (resizeEvent w s) = innerHeight w
        \<and> overlayX (overlayState (resizeEvent w s)) = innerWidth w / 2
        \<and> overlayY (overlayState (resizeEvent w s)) = innerHeight w / 2)
   \<and> (\<not> cameraActive (appState s) \<longrightarrow> resizeEvent w s = s)"
  by (simp add: resizeEvent_def resetOverlayTransform_def resizeCanvas_def
      updateViewportSize_def)

lemma loaded_fields:
  "\<not> cameraActive (appState loaded)" "overlayX (overlayState loaded) = 200"
  "overlayY (overlayState loaded) = 400" "overlayReady loaded"
  by (simp_all add: example_defs)

theorem resize_recentres_witness:
  "cameraActive (appState tracing)
   \<and> overlayX (overlayState (resizeEvent landscape tracing)) = 400
   \<and> overlayY (overlayState (resizeEvent landscape tracing)) = 200
   \<and> \<not> cameraActive (appState loaded)
   \<and> resizeEvent landscape loaded = loaded"
  using resize_recentres_while_camera_active [of landscape tracing]
    resize_recentres_while_camera_active [of landscape loaded]
  by (simp add: tracing_fields loaded_fields landscape_def)

text \<open>
  The image is loaded on a 400 x 800 screen and the camera is not started; the device
  is turned to 800 x 400. The overlay stays at (200, 400); the new centre is (400, 200).
\<close>

theorem resize_without_camera_counterexample:
  "dispatch (Resize landscape) loaded = Inr loaded
   \<and> dispatch (OrientationChange landscape) loaded = Inr loaded
   \<and> overlayX (overlayState loaded) = 200 \<and> innerWidth landscape / 2 = 400
   \<and> overlayY (overlayState loaded) = 400 \<and> innerHeight landscape / 2 = 200"
  by (simp add: resizeEvent_def loaded_fields landscape_def)

section \<open>Image ingestion\<close>

lemma math_round_near: "\<bar>real_of_int (math_round v) - v\<bar> \<le> 1 / 2"
  unfolding math_round_def by linarith

lemma math_round_nonneg: "0 \<le> v \<Longrightarrow> 0 \<le> math_round v"
  unfolding math_round_def by simp

lemma math_round_le: "v \<le> 4096 \<Longrightarrow> math_round v \<le> 4096"
  unfolding math_round_def by (simp add: floor_le_iff)

lemma math_round_4096: "math_round 4096 = 4096"
  unfolding math_round_def by simp

text \<open>One edge \<open>e\<close> of an image whose longest edge is \<open>L\<close>, scaled by 4096 / L and rounded.\<close>

lemma target_edge:
  assumes "e \<le> L" and "0 < L"
  shows "\<bar>real (nat (math_round (real e * (real (4096::nat) / real L))))
            - real e * 4096 / real L\<bar> \<le> 1 / 2"
    and "nat (math_round (real e * (real (4096::nat) / real L))) \<le> 4096"
    and "e = L \<Longrightarrow> nat (math_round (real e * (real (4096::nat) / real L))) = 4096"
proof -
  define v where "v = real e * (real (4096::nat) / real L)"
  have v0: "0 \<le> v" unfolding v_def by simp
  have "real e / real L \<le> 1" using assms by simp
  then have "real e / real L * 4096 \<le> 1 * 4096" by (rule mult_right_mono) simp
  then have v1: "v \<le> 4096" unfolding v_def by simp
  have r: "real (nat (math_round v)) = real_of_int (math_round v)"
    using math_round_nonneg [OF v0] by simp
  show "\<bar>real (nat (math_round (real e * (real (4096::nat) / real L))))
            - real e * 4096 / real L\<bar> \<le> 1 / 2"
    using math_round_near [of v] r unfolding v_def by simp
  show "nat (math_round (real e * (real (4096::nat) / real L))) \<le> 4096"
    using math_round_le [OF v1] unfolding v_def by simp
  show "nat (math_round (real e * (real (4096::nat) / real L))) = 4096" if "e = L"
  proof -
    have "v = 4096" unfolding v_def using that assms by simp
    then show ?thesis unfolding v_def [symmetric] by (simp add: math_round_4096)
  qed
qed

lemma downscaled_size:
  assumes big: "4096 < max (naturalWidth img) (naturalHeight img)"
  shows "max (naturalWidth (createDownscaledImageIfNeeded img))
             (naturalHeight (createDownscaledImageIfNeeded img)) = 4096
    \<and> \<bar>real (naturalWidth (createDownscaledImageIfNeeded img))
         - real (naturalWidth img) * 4096 / real (max (naturalWidth img) (naturalHeight img))\<bar>
        \<le> 1 / 2
    \<and> \<bar>real (naturalHeight (createDownscaledImageIfNeeded img))
         - real (naturalHeight img) * 4096 / real (max (naturalWidth img) (naturalHeight img))\<bar>
        \<le> 1 / 2"
proof -
  define L where "L = max (naturalWidth img) (naturalHeight img)"
  have L: "0 < L" "naturalWidth img \<le> L" "naturalHeight img \<le> L" "4096 < L"
    using big unfolding L_def by simp_all
  define tw where "tw = nat (math_round (real (naturalWidth img) * (real (4096::nat) / real L)))"
  define th where "th = nat (math_round (real (naturalHeight img) * (real (4096::nat) / real L)))"
  have out: "naturalWidth (createDownscaledImageIfNeeded img) = tw"
    "naturalHeight (createDownscaledImageIfNeeded img) = th"
    using L(4) unfolding createDownscaledImageIfNeeded_def Let_def L_def [symmetric] tw_def th_def
    by simp_all
  have le: "tw \<le> 4096" "th \<le> 4096"
    unfolding tw_def th_def using target_edge(2) L by simp_all
  have "naturalWidth img = L \<or> naturalHeight img = L" unfolding L_def by (auto simp: max_def)
  then have "tw = 4096 \<or> th = 4096"
    unfolding tw_def th_def using target_edge(3) L by blast
  with le have "max tw th = 4096" by (auto simp: max_def)
  moreover have "\<bar>real tw - real (naturalWidth img) * 4096 / real L\<bar> \<le> 1 / 2"
    unfolding tw_def using target_edge(1) L by simp
  moreover have "\<bar>real th - real (naturalHeight img) * 4096 / real L\<bar> \<le> 1 / 2"
    unfolding th_def using target_edge(1) L by simp
  ultimately show ?thesis unfolding out L_def by simp
qed

lemma downscaled_is_new: "4096 < max (naturalWidth img) (naturalHeight img)
    \<Longrightarrow> createDownscaledImageIfNeeded img \<noteq> img"
proof
  assume big: "4096 < max (naturalWidth img) (naturalHeight img)"
    and same: "createDownscaledImageIfNeeded img = img"
  from big have "\<not> max (naturalWidth img) (naturalHeight img) \<le> 4096" by linarith
  then obtain a b where "src (createDownscaledImageIfNeeded img) = CanvasJpeg (src img) a b"
    by (simp add: createDownscaledImageIfNeeded_def Let_def)
  with same have "size (src img) = size (CanvasJpeg (src img) a b)" by simp
  then show False by simp
qed

text \<open>
  What the script exposes: the decoded image when its longest edge is at most 4096;
  the downscaled image when that one loads; and nothing at all, the state unchanged,
  when the downscaled image never loads.
\<close>

lemma handleImageFile_small:
  assumes "max (naturalWidth img) (naturalHeight img) \<le> 4096"
  shows "handleImageFile w img s = exposeImage w img s"
proof -
  from assms have "\<not> 4096 < max (naturalWidth img) (naturalHeight img)" by linarith
  then show ?thesis unfolding handleImageFile_def by (simp only: if_False)
qed

lemma handleImageFile_big:
  assumes "4096 < max (naturalWidth img) (naturalHeight img)"
  shows "handleImageFile w img s =
     (if dataUrlLoads (createDownscaledImageIfNeeded img)
      then exposeImage w (createDownscaledImageIfNeeded img) s else s)"
  unfolding handleImageFile_def Let_def
  using assms downscaled_is_new [OF assms]
  by (cases "dataUrlLoads (createDownscaledImageIfNeeded img)") simp_all

lemma exposeImage_overlayImage: "overlayImage (exposeImage w im s) = Some im"
  by (simp add: exposeImage_def Let_def resetFilters_def resetOverlayTransform_def
      resizeCanvas_def updateViewportSize_def)

text \<open>
  For every image whose downscaled version loads (both scaled edges round to at least
  1), and for every image with longest edge at most 4096, ingestion keeps its contract:
  the small image is exposed as it is; the large one with longest edge exactly 4096 and
  each edge within one half of the exact proportional size.
\<close>

lemma exposed_image_bounds:
  "(max (naturalWidth img) (naturalHeight img) \<le> 4096 \<longrightarrow>
      createDownscaledImageIfNeeded img = img
      \<and> overlayImage (handleImageFile w img s) = Some img)
   \<and> (4096 < max (naturalWidth img) (naturalHeight img)
       \<and> dataUrlLoads (createDownscaledImageIfNeeded img) \<longrightarrow>
      (\<exists>out. overlayImage (handleImageFile w img s) = Some out
        \<and> max (naturalWidth out) (naturalHeight out) = 4096
        \<and> \<bar>real (naturalWidth out) - real (naturalWidth img) * 4096
              / real (max (naturalWidth img) (naturalHeight img))\<bar> \<le> 1 / 2
        \<and> \<bar>real (naturalHeight out) - real (naturalHeight img) * 4096
              / real (max (naturalWidth img) (naturalHeight img))\<bar> \<le> 1 / 2))"
proof (intro conjI impI)
  assume small: "max (naturalWidth img) (naturalHeight img) \<le> 4096"
  then show "createDownscaledImageIfNeeded img = img"
    by (simp add: createDownscaledImageIfNeeded_def Let_def)
  show "overlayImage (handleImageFile w img s) = Some img"
    unfolding handleImageFile_small [OF small] by (rule exposeImage_overlayImage)
next
  assume "4096 < max (naturalWidth img) (naturalHeight img)
    \<and> dataUrlLoads (createDownscaledImageIfNeeded img)"
  then have big: "4096 < max (naturalWidth img) (naturalHeight img)"
    and loads: "dataUrlLoads (createDownscaledImageIfNeeded img)" by simp_all
  have "overlayImage (handleImageFile w img s) = Some (createDownscaledImageIfNeeded img)"
    unfolding handleImageFile_big [OF big] using loads
    by (simp only: if_True exposeImage_overlayImage)
  with downscaled_size [OF big]
  show "\<exists>out. overlayImage (handleImageFile w img s) = Some out
        \<and> max (naturalWidth out) (naturalHeight out) = 4096
        \<and> \<bar>real (naturalWidth out) - real (naturalWidth img) * 4096
              / real (max (naturalWidth img) (naturalHeight img))\<bar> \<le> 1 / 2
        \<and> \<bar>real (naturalHeight out) - real (naturalHeight img) * 4096
              / real (max (naturalWidth img) (naturalHeight img))\<bar> \<le> 1 / 2"
    by blast
qed

text \<open>The 8000 x 6000 poster is exposed at 4096 x 3072; the 2000 x 1000 photo as it is.\<close>

lemma poster_downscaled:
  "createDownscaledImageIfNeeded poster
    = \<lparr> src = CanvasJpeg (FileData ''poster'') 4096 3072,
        naturalWidth = 4096, naturalHeight = 3072 \<rparr>"
  by (simp add: createDownscaledImageIfNeeded_def poster_def math_round_def Let_def)

lemma poster_and_photo_exposed:
  "overlayImage (handleImageFile portrait photo (boot portrait)) = Some photo
   \<and> overlayImage (handleImageFile portrait poster (boot portrait))
       = Some \<lparr> src = CanvasJpeg (FileData ''poster'') 4096 3072,
               naturalWidth = 4096, naturalHeight = 3072 \<rparr>"
proof -
  have small: "max (naturalWidth photo) (naturalHeight photo) \<le> 4096"
    by (simp add: photo_def)
  have big: "4096 < max (naturalWidth poster) (naturalHeight poster)"
    by (simp add: poster_def)
  show ?thesis
    unfolding handleImageFile_small [OF small] handleImageFile_big [OF big]
    by (simp add: poster_downscaled exposeImage_overlayImage dataUrlLoads_def)
qed

lemma boot_fields: "overlayImage (boot w) = None" "\<not> overlayReady (boot w)"
  "\<not> hasImage (appState (boot w))"
  by (simp_all add: boot_def initial_def enterLandingMode_def stopCamera_def resetFilters_def
      resetOverlayTransform_def Let_def)

text \<open>
  C6 at an input where the script exposes nothing. The strip is 10000 x 1, so its
  longest edge exceeds 4096 and the claim promises a downscaled image with longest edge
  4096. The script scales the edges to round(10000 * 0.4096) = 4096 and
  round(1 * 0.4096) = 0 and makes a canvas of 4096 x 0; the image made from that canvas
  never loads, the statements that expose it never run, and the state stays as it was
  before the upload: no image, not ready.
\<close>

theorem thin_image_is_never_exposed:
  "4096 < max (naturalWidth strip) (naturalHeight strip)
   \<and> naturalWidth (createDownscaledImageIfNeeded strip) = 4096
   \<and> naturalHeight (createDownscaledImageIfNeeded strip) = 0
   \<and> handleImageFile portrait strip (boot portrait) = boot portrait
   \<and> overlayImage (handleImageFile portrait strip (boot portrait)) = None
   \<and> \<not> overlayReady (handleImageFile portrait strip (boot portrait))
   \<and> \<not> hasImage (appState (handleImageFile portrait strip (boot portrait)))"
proof -
  have out: "naturalWidth (createDownscaledImageIfNeeded strip) = 4096"
    "naturalHeight (createDownscaledImageIfNeeded strip) = 0"
    by (simp_all add: createDownscaledImageIfNeeded_def strip_def math_round_def Let_def)
  have big: "4096 < max (naturalWidth strip) (naturalHeight strip)"
    by (simp add: strip_def)
  have "handleImageFile portrait strip (boot portrait) = boot portrait"
    unfolding handleImageFile_big [OF big] by (simp add: dataUrlLoads_def out)
  with out big show ?thesis by (simp add: boot_fields)
qed

section \<open>Filter settings\<close>

lemma handleTouchStart_filters:
  "filterState (handleTouchStart ts now s) = filterState s
   \<and> fxState (handleTouchStart ts now s) = fxState s"
  by (simp add: handleTouchStart_def setUiHidden_def resetOverlayTransform_def Let_def
      split: list.splits)

lemma handleTouchMove_filters:
  assumes "handleTouchMove ts s = Inr s'"
  shows "filterState s' = filterState s \<and> fxState s' = fxState s"
  using assms
  by (auto simp: handleTouchMove_def Let_def split: if_splits list.splits jsnum.splits)

lemma handleGesture_filters:
  assumes "handleGesture g s = Inr s'"
  shows "filterState s' = filterState s \<and> fxState s' = fxState s"
proof (cases g)
  case (TouchStart ts now)
  with assms show ?thesis using handleTouchStart_filters [of ts now s] by auto
next
  case (TouchMove ts)
  with assms show ?thesis using handleTouchMove_filters [of ts s s'] by simp
next
  case (TouchEnd ts)
  with assms show ?thesis by (auto simp: handleTouchEnd_def)
qed

text \<open>
  C9, as the script has it. The three sliders set their own field of the filter
  settings and nothing else of them. Loading an image and the change-image button reset
  all five settings to their defaults (brightness 1, contrast 1, opacity 0.7, no
  grayscale, no inversion); an upload whose downscaled image never loads changes
  nothing at all. Every other event, among them every gesture, the
  zoom, lock, reset and hide buttons, starting the camera, and resizing, leaves all
  five settings unchanged.
\<close>

theorem filter_settings_frame:
  assumes "dispatch e s = Inr s'"
  shows "case e of
      BrightnessInput v \<Rightarrow>
        filterState s' = (filterState s)\<lparr> brightness := v \<rparr> \<and> fxState s' = fxState s
    | ContrastInput v \<Rightarrow>
        filterState s' = (filterState s)\<lparr> contrast := v \<rparr> \<and> fxState s' = fxState s
    | OpacityInput v \<Rightarrow>
        filterState s' = (filterState s)\<lparr> opacity := v \<rparr> \<and> fxState s' = fxState s
    | ImageDecoded w img \<Rightarrow>
        if finalImageLoads img
        then filterState s' = \<lparr> brightness = 1, contrast = 1, opacity = 7 / 10 \<rparr>
          \<and> fxState s' = \<lparr> grayscale = False, invert = False \<rparr>
        else s' = s
    | ChangeImageClick \<Rightarrow>
        filterState s' = \<lparr> brightness = 1, contrast = 1, opacity = 7 / 10 \<rparr>
        \<and> fxState s' = \<lparr> grayscale = False, invert = False \<rparr>
    | _ \<Rightarrow> filterState s' = filterState s \<and> fxState s' = fxState s"
proof (cases e)
  case (Gesture g)
  with assms show ?thesis using handleGesture_filters [of g s s'] by simp
next
  case (LandingPrimaryClick granted w)
  with assms show ?thesis
    by (auto simp: startCamera_def resizeCanvas_def updateViewportSize_def)
next
  case (ImageDecoded w img)
  have exposed: "filterState (exposeImage w im s)
        = \<lparr> brightness = 1, contrast = 1, opacity = 7 / 10 \<rparr>
      \<and> fxState (exposeImage w im s) = \<lparr> grayscale = False, invert = False \<rparr>" for im
    by (simp add: exposeImage_def Let_def resetFilters_def resetOverlayTransform_def
        resizeCanvas_def updateViewportSize_def)
  from assms ImageDecoded have s': "s' = handleImageFile w img s" by simp
  show ?thesis
  proof (cases "4096 < max (naturalWidth img) (naturalHeight img)")
    case True
    then show ?thesis
      unfolding ImageDecoded s' handleImageFile_big [OF True]
      using exposed by (simp add: finalImageLoads_def)
  next
    case False
    then have small: "max (naturalWidth img) (naturalHeight img) \<le> 4096" by linarith
    from False show ?thesis
      unfolding ImageDecoded s' handleImageFile_small [OF small]
      using exposed by (simp add: finalImageLoads_def)
  qed
next
  case ZoomInClick
  with assms show ?thesis by (auto simp: zoomInClick_def Let_def)
next
  case ZoomOutClick
  with assms show ?thesis by (auto simp: zoomOutClick_def Let_def)
next
  case LockClick
  with assms show ?thesis by (auto simp: toggleLock_def)
next
  case ResetClick
  with assms show ?thesis by (auto simp: resetOverlayTransform_def)
next
  case ChangeImageClick
  with assms show ?thesis
    by (auto simp: enterLandingMode_def Let_def stopCamera_def resetFilters_def
        resetOverlayTransform_def)
next
  case HideUiClick
  with assms show ?thesis by (auto simp: setUiHidden_def)
next
  case CanvasClick
  with assms show ?thesis by (auto simp: setUiHidden_def)
next
  case (BrightnessInput v)
  with assms show ?thesis by auto
next
  case (ContrastInput v)
  with assms show ?thesis by auto
next
  case (OpacityInput v)
  with assms show ?thesis by auto
next
  case (Resize w)
  with assms show ?thesis
    by (auto simp: resizeEvent_def resetOverlayTransform_def resizeCanvas_def
        updateViewportSize_def)
next
  case (OrientationChange w)
  with assms show ?thesis
    by (auto simp: resizeEvent_def resetOverlayTransform_def resizeCanvas_def
        updateViewportSize_def)
qed

lemma tuned_fields:
  "brightness (filterState tuned) = 2" "overlayReady tuned" "\<not> uiHidden (appState tuned)"
  "\<not> locked (overlayState tuned)" "pinchStartScale tuned = 1"
  by (simp_all add: example_defs)

lemma tuned_pan:
  "dispatch (Gesture (TouchMove [finger 120 90])) tuned
    = Inr (tuned\<lparr> overlayState := (overlayState tuned)
             \<lparr> overlayX := overlayStartX tuned + (120 - panStartX tuned),
               overlayY := overlayStartY tuned + (90 - panStartY tuned) \<rparr> \<rparr>)"
  by (simp add: handleTouchMove_def tuned_fields finger_fields Let_def)

text \<open>With the brightness at 2, a pan keeps it.\<close>

theorem filter_settings_witness:
  "brightness (filterState tuned) = 2
   \<and> map_sum id (brightness \<circ> filterState)
        (dispatch (Gesture (TouchMove [finger 120 90])) tuned) = Inr 2"
proof -
  from filter_settings_frame [OF tuned_pan]
  have "filterState (tuned\<lparr> overlayState := (overlayState tuned)
             \<lparr> overlayX := overlayStartX tuned + (120 - panStartX tuned),
               overlayY := overlayStartY tuned + (90 - panStartY tuned) \<rparr> \<rparr>)
        = filterState tuned"
    by simp
  then show ?thesis
    unfolding tuned_pan by (simp add: tuned_fields)
qed

text \<open>With the brightness at 2, an image that finishes loading sets it back to 1.\<close>

theorem image_load_resets_filters_counterexample:
  "brightness (filterState tuned) = 2
   \<and> map_sum id (brightness \<circ> filterState) (dispatch (ImageDecoded portrait photo) tuned)
       = Inr 1"
  by (simp add: tuned_fields handleImageFile_def exposeImage_def photo_def resetFilters_def
      Let_def)

end
